theory Spec2Isabelle
  imports Complex_Main
begin

section \<open>The media backend as the engine sees it\<close>

text \<open>
  \<^verbatim>\<open>harmony_player.py\<close> drives libVLC through the \<^verbatim>\<open>vlc\<close> bindings and a Qt timer.
  Neither is part of the program, so both are modelled by the little state the engine reads
  and writes: a media player object holds the media bound to it, its volume, whether it is
  playing and the equalizer gains pushed to it; a timer holds whether it is running and
  its interval in milliseconds.

  Player objects are mutable and the engine keeps references to them in two fields
  (\<^verbatim>\<open>self.player\<close> and \<^verbatim>\<open>self.fade_out_player\<close>), so the objects live in a
  store indexed by handles and the fields hold handles. Two fields that hold the same
  handle alias the same object, as in Python.
\<close>

datatype vlc_media = Media string

record vlc_player =
  media :: "vlc_media option"
  volume :: int
  playing :: bool
  eq_gains :: "real list"

record qtimer =
  active :: bool
  interval :: int

type_synonym handle = nat

datatype error = AttributeError | BackendError string

text \<open>
  What the backend answers is not decided by the program: \<^verbatim>\<open>media_new\<close> and
  \<^verbatim>\<open>parse_with_options\<close> may raise, and \<^verbatim>\<open>play()\<close> returns 0 when playback
  started and -1 otherwise. These answers are parameters of the model.
\<close>

record backend =
  media_new :: "string \<Rightarrow> error + vlc_media"
  parse_with_options :: "vlc_media \<Rightarrow> error option"
  play_rc :: "vlc_player \<Rightarrow> int"
  band_count :: nat
  initial_volume :: int

section \<open>AudioEngine\<close>

record AudioEngine =
  players :: "handle \<Rightarrow> vlc_player"
  player :: handle
  equalizer :: "real list"
  current_media :: "vlc_media option"
  crossfade_timer :: qtimer
  crossfade_duration :: int
  fade_out_player :: "handle option"

definition audio_set_volume :: "handle \<Rightarrow> int \<Rightarrow> AudioEngine \<Rightarrow> AudioEngine" where
  "audio_set_volume h v e = e\<lparr>players := (players e)(h := (players e h)\<lparr>volume := v\<rparr>)\<rparr>"

definition vlc_play :: "backend \<Rightarrow> handle \<Rightarrow> AudioEngine \<Rightarrow> int \<times> AudioEngine" where
  "vlc_play b h e =
     (let rc = play_rc b (players e h)
      in (rc, if rc = 0 then e\<lparr>players := (players e)(h := (players e h)\<lparr>playing := True\<rparr>)\<rparr>
              else e))"

definition timer_start :: "int \<Rightarrow> AudioEngine \<Rightarrow> AudioEngine" where
  "timer_start ms e = e\<lparr>crossfade_timer := \<lparr>active = True, interval = ms\<rparr>\<rparr>"

text \<open>
  \<^verbatim>\<open>load_file\<close>: everything happens inside \<^verbatim>\<open>try\<close>; any exception is logged and turned
  into the result \<^verbatim>\<open>False\<close>. The two assignments come after the calls that may raise.
\<close>

definition load_file :: "backend \<Rightarrow> string \<Rightarrow> AudioEngine \<Rightarrow> bool \<times> AudioEngine" where
  "load_file b file_path e =
     (case media_new b file_path of
        Inl ex \<Rightarrow> (False, e)
      | Inr m \<Rightarrow>
          (case parse_with_options b m of
             Some ex \<Rightarrow> (False, e)
           | None \<Rightarrow>
               (True, e\<lparr>players := (players e)(player e := (players e (player e))\<lparr>media := Some m\<rparr>),
                        current_media := Some m\<rparr>)))"

text \<open>
  \<^verbatim>\<open>start_crossfade\<close> starts the timer first and then calls a method on
  \<^verbatim>\<open>self.fade_out_player\<close>; when that field is \<^verbatim>\<open>None\<close> the call raises
  \<^verbatim>\<open>AttributeError\<close> with the timer already running. The result of
  \<^verbatim>\<open>self.player.play()\<close> is dropped.
\<close>

definition start_crossfade :: "backend \<Rightarrow> AudioEngine \<Rightarrow> error option \<times> AudioEngine" where
  "start_crossfade b e =
     (let e1 = timer_start 100 e
      in case fade_out_player e1 of
           None \<Rightarrow> (Some AttributeError, e1)
         | Some fo \<Rightarrow>
             (let e2 = audio_set_volume fo 100 e1;
                  e3 = audio_set_volume (player e2) 0 e2
              in (None, snd (vlc_play b (player e3) e3))))"

text \<open>
  \<^verbatim>\<open>play\<close>: a player object is truthy, \<^verbatim>\<open>None\<close> is not. The guard makes the
  \<^verbatim>\<open>AttributeError\<close> of \<^verbatim>\<open>start_crossfade\<close> unreachable from here.
\<close>

definition play :: "backend \<Rightarrow> AudioEngine \<Rightarrow> bool \<times> AudioEngine" where
  "play b e =
     (if crossfade_duration e > 0 \<and> fade_out_player e \<noteq> None
      then (True, snd (start_crossfade b e))
      else (let (rc, e') = vlc_play b (player e) e in (rc = 0, e')))"

text \<open>\<^verbatim>\<open>handle_crossfade\<close>: the body is \<^verbatim>\<open>pass\<close>.\<close>

definition handle_crossfade :: "AudioEngine \<Rightarrow> AudioEngine" where
  "handle_crossfade e = e"

text \<open>
  The timer's \<^verbatim>\<open>timeout\<close> signal is connected to \<^verbatim>\<open>handle_crossfade\<close>: a running timer
  calls it once per interval. \<open>advance_time ms\<close> is what the passing of \<open>ms\<close>
  milliseconds does to the engine.
\<close>

definition tick :: "AudioEngine \<Rightarrow> AudioEngine" where
  "tick e = (if active (crossfade_timer e) then handle_crossfade e else e)"

definition advance_time :: "int \<Rightarrow> AudioEngine \<Rightarrow> AudioEngine" where
  "advance_time ms e =
     (if interval (crossfade_timer e) > 0
      then (tick ^^ nat (ms div interval (crossfade_timer e))) e
      else e)"

text \<open>
  The engine as \<^verbatim>\<open>__init__\<close> leaves it: one player object (handle 0) with nothing
  bound to it, the equalizer after \<^verbatim>\<open>set_eq_preset('flat')\<close> (all gains zero), a timer
  that was never started, a crossfade duration of 3 seconds and no fade-out player.
  Nothing in the source file assigns \<^verbatim>\<open>fade_out_player\<close> again; the theorems hold for
  whatever the field contains.
\<close>

definition new_player :: "backend \<Rightarrow> vlc_player" where
  "new_player b =
     \<lparr>media = None, volume = initial_volume b, playing = False,
      eq_gains = replicate (band_count b) 0\<rparr>"

definition new_engine :: "backend \<Rightarrow> AudioEngine" where
  "new_engine b =
     \<lparr>players = (\<lambda>h. new_player b), player = 0,
      equalizer = replicate (band_count b) 0, current_media = None,
      crossfade_timer = \<lparr>active = False, interval = 0\<rparr>,
      crossfade_duration = 3, fade_out_player = None\<rparr>"

text \<open>
  The handles the engine holds: the live one and, during a transition, the outgoing one.
\<close>

definition live_handles :: "AudioEngine \<Rightarrow> handle set" where
  "live_handles e = insert (player e) (set_option (fade_out_player e))"

section \<open>Operations the source calls but does not define\<close>

text \<open>
  Modelled from the spec: \<^verbatim>\<open>AudioEngine.get_volume\<close> is called by the hotkeys and by
  \<^verbatim>\<open>toggle_mute\<close> but its body is not in the source file. The spec's observer
  \<^verbatim>\<open>volume()\<close> reports the volume of the live handle.
\<close>

definition get_volume :: "AudioEngine \<Rightarrow> int" where
  "get_volume e = volume (players e (player e))"

text \<open>
  Modelled from the spec: the body of the volume setter is not in the source file. The spec
  (4.1): the level is clamped to [0,100] and applied to whichever handles are currently
  live, both of them during a crossfade.
\<close>

definition engine_set_volume :: "int \<Rightarrow> AudioEngine \<Rightarrow> AudioEngine" where
  "engine_set_volume level e =
     (let v = max 0 (min 100 level);
          e1 = (case fade_out_player e of None \<Rightarrow> e | Some fo \<Rightarrow> audio_set_volume fo v e)
      in audio_set_volume (player e1) v e1)"

text \<open>
  Modelled from the spec: \<^verbatim>\<open>set_eq_preset\<close> is called by \<^verbatim>\<open>__init__\<close> but its body and
  the table of presets are not in the source file. The spec (4.3): the name is resolved
  case-insensitively in the preset store, a miss falls back to the all-zero preset "flat",
  and the gains are pushed to the live handles, both of them during a crossfade. The
  named presets other than "flat" are a parameter.
\<close>

definition lower_char :: "char \<Rightarrow> char" where
  "lower_char c =
     (case map_of (zip ''ABCDEFGHIJKLMNOPQRSTUVWXYZ'' ''abcdefghijklmnopqrstuvwxyz'') c of
        Some l \<Rightarrow> l
      | None \<Rightarrow> c)"

definition lower :: "string \<Rightarrow> string" where
  "lower s = map lower_char s"

type_synonym preset_store = "(string \<times> real list) list"

definition flat :: "backend \<Rightarrow> real list" where
  "flat b = replicate (band_count b) 0"

definition resolve_preset :: "backend \<Rightarrow> preset_store \<Rightarrow> string \<Rightarrow> real list" where
  "resolve_preset b store name =
     (case find (\<lambda>kg. lower (fst kg) = lower name) ((''flat'', flat b) # store) of
        Some kg \<Rightarrow> snd kg
      | None \<Rightarrow> flat b)"

definition push_gains :: "handle \<Rightarrow> real list \<Rightarrow> AudioEngine \<Rightarrow> AudioEngine" where
  "push_gains h g e = e\<lparr>players := (players e)(h := (players e h)\<lparr>eq_gains := g\<rparr>)\<rparr>"

definition set_eq_preset :: "backend \<Rightarrow> preset_store \<Rightarrow> string \<Rightarrow> AudioEngine \<Rightarrow> AudioEngine" where
  "set_eq_preset b store name e =
     (let g = resolve_preset b store name;
          e1 = (case fade_out_player e of None \<Rightarrow> e | Some fo \<Rightarrow> push_gains fo g e)
      in (push_gains (player e1) g e1)\<lparr>equalizer := g\<rparr>)"

text \<open>
  Modelled from the spec: the source has no \<^verbatim>\<open>stop\<close>, \<^verbatim>\<open>seek\<close> or track advance and
  no cancellation path. The spec (4.2, step 5): all three go through one cancellation, which
  releases the outgoing handle at once, snaps the incoming handle's volume to
  \<open>base_volume\<close>, promotes it and cancels the tick. The engine of the source keeps no
  \<open>base_volume\<close>; it is the value the session captured when it began and is passed in.
  Without an outgoing handle there is no session and nothing to cancel.
\<close>

definition cancel_crossfade :: "int \<Rightarrow> AudioEngine \<Rightarrow> AudioEngine" where
  "cancel_crossfade base_volume e =
     (case fade_out_player e of
        None \<Rightarrow> e
      | Some fo \<Rightarrow>
          (let e1 = e\<lparr>players := (players e)(fo := (players e fo)\<lparr>playing := False\<rparr>),
                      fade_out_player := None\<rparr>;
               e2 = audio_set_volume (player e1) base_volume e1
           in e2\<lparr>crossfade_timer := (crossfade_timer e2)\<lparr>active := False\<rparr>\<rparr>))"

section \<open>MusicPlayer\<close>

text \<open>
  Of the window only the engine and the attribute \<^verbatim>\<open>last_volume\<close> matter here. The
  attribute does not exist until \<^verbatim>\<open>toggle_mute\<close> first assigns it, which
  \<^verbatim>\<open>hasattr\<close> tests: \<open>None\<close> stands for the missing attribute.
\<close>

record MusicPlayer =
  audio_engine :: AudioEngine
  last_volume :: "int option"

text \<open>
  Modelled from the spec: \<^verbatim>\<open>MusicPlayer.set_volume\<close> is called throughout but its body is
  not in the source file; it hands the level to the engine's clamping setter.
\<close>

definition set_volume :: "int \<Rightarrow> MusicPlayer \<Rightarrow> MusicPlayer" where
  "set_volume level mp = mp\<lparr>audio_engine := engine_set_volume level (audio_engine mp)\<rparr>"

definition toggle_mute :: "MusicPlayer \<Rightarrow> MusicPlayer" where
  "toggle_mute mp =
     (let current = get_volume (audio_engine mp)
      in if current > 0
         then set_volume 0 (mp\<lparr>last_volume := Some current\<rparr>)
         else set_volume (case last_volume mp of Some v \<Rightarrow> v | None \<Rightarrow> 70) mp)"

text \<open>The two volume hotkeys of \<^verbatim>\<open>init_hotkeys\<close> (Ctrl+Up and Ctrl+Down).\<close>

definition volume_up :: "MusicPlayer \<Rightarrow> MusicPlayer" where
  "volume_up mp = set_volume (min 100 (get_volume (audio_engine mp) + 5)) mp"

definition volume_down :: "MusicPlayer \<Rightarrow> MusicPlayer" where
  "volume_down mp = set_volume (max 0 (get_volume (audio_engine mp) - 5)) mp"

section \<open>Concrete states\<close>

text \<open>
  A backend that opens two files and raises on every other path, a store with one named
  preset, and an engine in the middle of a track change:
  handle 0 is the incoming player, handle 1 the outgoing one, both at volume 70.
\<close>

definition demo_backend :: backend where
  "demo_backend =
     \<lparr>media_new = (\<lambda>p. if p = ''a.mp3'' \<or> p = ''b.mp3'' then Inr (Media p)
                       else Inl (BackendError p)),
      parse_with_options = (\<lambda>m. None),
      play_rc = (\<lambda>p. if media p = None then - 1 else 0),
      band_count = 10,
      initial_volume = 70\<rparr>"

definition demo_store :: preset_store where
  "demo_store = [(''Rock'', [4, 3, 0, -2, -3, 0, 2, 3, 4, 4])]"

definition demo_engine :: AudioEngine where
  "demo_engine =
     (new_engine demo_backend)
       \<lparr>players := (\<lambda>h. new_player demo_backend)
                     (0 := (new_player demo_backend)\<lparr>media := Some (Media ''b.mp3'')\<rparr>,
                      1 := (new_player demo_backend)\<lparr>media := Some (Media ''a.mp3''), playing := True\<rparr>),
        current_media := Some (Media ''b.mp3''),
        fade_out_player := Some 1\<rparr>"

definition demo_player :: MusicPlayer where
  "demo_player =
     \<lparr>audio_engine = snd (load_file demo_backend ''a.mp3'' (new_engine demo_backend)),
      last_volume = None\<rparr>"

text \<open>
  An engine with crossfade switched off that is playing its first track, and a window
  whose volume is 0 before \<^verbatim>\<open>toggle_mute\<close> was ever called.
\<close>

definition demo_cut_engine :: AudioEngine where
  "demo_cut_engine =
     (snd (play demo_backend (snd (load_file demo_backend ''a.mp3'' (new_engine demo_backend)))))
       \<lparr>crossfade_duration := 0\<rparr>"

definition demo_silent :: MusicPlayer where
  "demo_silent = set_volume 0 demo_player"

text \<open>
  The table of formats of the source (\<^verbatim>\<open>SUPPORTED_FORMATS\<close>). No function in the source
  file reads it; \<open>supported_format\<close> is the test the table stands for, that the path ends
  in one of its suffixes (\<^verbatim>\<open>str.endswith\<close>).
\<close>

definition SUPPORTED_FORMATS :: "string list" where
  "SUPPORTED_FORMATS = [''.mp3'', ''.flac'', ''.wav'', ''.ogg'', ''.m4a'', ''.aac'']"

definition endswith :: "string \<Rightarrow> string \<Rightarrow> bool" where
  "endswith s ext = (length ext \<le> length s \<and> drop (length s - length ext) s = ext)"

definition supported_format :: "string \<Rightarrow> bool" where
  "supported_format file_path = list_ex (endswith file_path) SUPPORTED_FORMATS"

text \<open>
  A backend that builds a media descriptor for every path without opening the file and
  never raises, as libVLC's \<^verbatim>\<open>media_new\<close> and \<^verbatim>\<open>parse_with_options\<close> do.
\<close>

definition lax_backend :: backend where
  "lax_backend = demo_backend\<lparr>media_new := (\<lambda>p. Inr (Media p))\<rparr>"

section \<open>Ticks\<close>

lemma tick_same: "tick e = e"
  by (simp add: tick_def handle_crossfade_def)

lemma ticks_same: "(tick ^^ n) e = e"
  by (induction n) (simp_all add: tick_same)

lemma advance_time_same: "advance_time ms e = e"
  by (simp add: advance_time_def ticks_same)

text \<open>
  C10. Every call of the tick handler returns the engine as it found it, so any number of
  ticks and any stretch of time do. After \<^verbatim>\<open>start_crossfade\<close> on two distinct players the
  incoming volume 0, the outgoing volume 100, the outgoing player and the running 100 ms
  timer are therefore still there after any number of ticks.
\<close>

theorem crossfade_tick_changes_nothing:
  "handle_crossfade e = e \<and> tick e = e \<and> (tick ^^ n) e = e \<and> advance_time ms e = e \<and>
   (fade_out_player e = Some fo \<and> fo \<noteq> player e \<longrightarrow>
      (let e' = (tick ^^ n) (snd (start_crossfade b e))
       in volume (players e' (player e')) = 0 \<and> volume (players e' fo) = 100 \<and>
          fade_out_player e' = Some fo \<and>
          crossfade_timer e' = \<lparr>active = True, interval = 100\<rparr>))"
  by (simp add: handle_crossfade_def tick_same ticks_same advance_time_same start_crossfade_def
      timer_start_def audio_set_volume_def vlc_play_def Let_def)

theorem crossfade_tick_changes_nothing_witness:
  "fade_out_player demo_engine = Some 1 \<and> 1 \<noteq> player demo_engine \<and>
   (let e' = (tick ^^ 30) (snd (start_crossfade demo_backend demo_engine))
    in volume (players e' (player e')) = 0 \<and> volume (players e' 1) = 100 \<and>
       fade_out_player e' = Some 1 \<and>
       crossfade_timer e' = \<lparr>active = True, interval = 100\<rparr>)"
  using crossfade_tick_changes_nothing [of demo_engine 30 0 1 demo_backend]
  by (simp add: demo_engine_def new_engine_def)

section \<open>Crossfade\<close>

text \<open>
  C1. The code at a concrete crossfade: duration 3 s, master volume 70, incoming player 0,
  outgoing player 1. \<^verbatim>\<open>play\<close> starts the crossfade; after the full 3000 ms the incoming
  volume is still 0 (not 70), the outgoing volume is still 100 (not 0), the outgoing player
  is still held and the timer is still running.
\<close>

theorem full_duration_leaves_fade_unfinished:
  "crossfade_duration demo_engine = 3 \<and> fade_out_player demo_engine = Some 1 \<and>
   get_volume demo_engine = 70 \<and>
   fst (play demo_backend demo_engine) \<and>
   get_volume (advance_time (3 * 1000) (snd (play demo_backend demo_engine))) = 0 \<and>
   volume (players (advance_time (3 * 1000) (snd (play demo_backend demo_engine))) 1) = 100 \<and>
   fade_out_player (advance_time (3 * 1000) (snd (play demo_backend demo_engine))) = Some 1 \<and>
   active (crossfade_timer (advance_time (3 * 1000) (snd (play demo_backend demo_engine))))"
  by (simp add: advance_time_same play_def start_crossfade_def timer_start_def
      audio_set_volume_def vlc_play_def get_volume_def demo_engine_def new_engine_def
      new_player_def demo_backend_def Let_def)

text \<open>
  C2, as the code has it. When \<^verbatim>\<open>play\<close> begins a crossfade (the duration is positive and
  an outgoing player, distinct from the incoming one, is set) it answers \<^verbatim>\<open>True\<close>, starts
  the timer at 100 ms, sets the outgoing volume to the fixed level 100 and the incoming
  volume to 0, and issues \<^verbatim>\<open>play()\<close> on the incoming player at once: that player is
  playing afterwards exactly when the backend accepted the call or it was playing before.
\<close>

theorem crossfade_start_fixed_levels:
  "crossfade_duration e > 0 \<Longrightarrow> fade_out_player e = Some fo \<Longrightarrow> fo \<noteq> player e \<Longrightarrow>
   fst (play b e) \<and>
   player (snd (play b e)) = player e \<and>
   fade_out_player (snd (play b e)) = Some fo \<and>
   crossfade_timer (snd (play b e)) = \<lparr>active = True, interval = 100\<rparr> \<and>
   volume (players (snd (play b e)) fo) = 100 \<and>
   volume (players (snd (play b e)) (player e)) = 0 \<and>
   playing (players (snd (play b e)) (player e)) =
     (play_rc b ((players e (player e))\<lparr>volume := 0\<rparr>) = 0 \<or> playing (players e (player e)))"
  by (simp add: play_def start_crossfade_def timer_start_def audio_set_volume_def
      vlc_play_def Let_def)

theorem crossfade_start_fixed_levels_witness:
  "crossfade_duration demo_engine > 0 \<and> fade_out_player demo_engine = Some 1 \<and>
   1 \<noteq> player demo_engine \<and>
   fst (play demo_backend demo_engine) \<and>
   crossfade_timer (snd (play demo_backend demo_engine)) = \<lparr>active = True, interval = 100\<rparr> \<and>
   volume (players (snd (play demo_backend demo_engine)) 1) = 100 \<and>
   volume (players (snd (play demo_backend demo_engine)) 0) = 0 \<and>
   playing (players (snd (play demo_backend demo_engine)) 0)"
  using crossfade_start_fixed_levels [of demo_engine 1 demo_backend]
  by (simp add: demo_engine_def new_engine_def new_player_def demo_backend_def)

text \<open>
  C2 as the spec states it fails: with the master volume at 70 when the crossfade begins,
  the outgoing player is put at 100, not at 70.
\<close>

theorem outgoing_level_not_master_volume:
  "crossfade_duration demo_engine > 0 \<and> fade_out_player demo_engine = Some 1 \<and>
   get_volume demo_engine = 70 \<and>
   volume (players (snd (play demo_backend demo_engine)) 1) \<noteq> get_volume demo_engine"
  by (simp add: play_def start_crossfade_def timer_start_def audio_set_volume_def
      vlc_play_def Let_def get_volume_def demo_engine_def new_engine_def new_player_def
      demo_backend_def)

text \<open>
  C3. Cancelling a crossfade session, after any number of ticks, leaves no outgoing handle:
  the outgoing player is stopped and let go, the one remaining live handle is the incoming
  player, its volume is the base volume, and the timer is stopped.
\<close>

theorem cancel_settles:
  "fade_out_player e = Some fo \<Longrightarrow>
   fade_out_player (cancel_crossfade base ((tick ^^ n) e)) = None \<and>
   live_handles (cancel_crossfade base ((tick ^^ n) e)) = {player e} \<and>
   get_volume (cancel_crossfade base ((tick ^^ n) e)) = base \<and>
   \<not> playing (players (cancel_crossfade base ((tick ^^ n) e)) fo) \<and>
   \<not> active (crossfade_timer (cancel_crossfade base ((tick ^^ n) e)))"
  by (simp add: ticks_same cancel_crossfade_def audio_set_volume_def live_handles_def
      get_volume_def Let_def)

theorem cancel_settles_witness:
  "fade_out_player (snd (play demo_backend demo_engine)) = Some 1 \<and>
   fade_out_player (cancel_crossfade 70 ((tick ^^ 15) (snd (play demo_backend demo_engine)))) = None \<and>
   live_handles (cancel_crossfade 70 ((tick ^^ 15) (snd (play demo_backend demo_engine)))) = {0} \<and>
   get_volume (cancel_crossfade 70 ((tick ^^ 15) (snd (play demo_backend demo_engine)))) = 70 \<and>
   \<not> playing (players (cancel_crossfade 70 ((tick ^^ 15) (snd (play demo_backend demo_engine)))) 1)"
proof -
  have h: "fade_out_player (snd (play demo_backend demo_engine)) = Some 1"
    by (simp add: play_def start_crossfade_def timer_start_def audio_set_volume_def
        vlc_play_def Let_def demo_engine_def new_engine_def)
  have p: "player (snd (play demo_backend demo_engine)) = 0"
    by (simp add: play_def start_crossfade_def timer_start_def audio_set_volume_def
        vlc_play_def Let_def demo_engine_def new_engine_def)
  show ?thesis
    using h p cancel_settles [OF h, of 70 15] by simp
qed

text \<open>
  C6. With a crossfade duration of 0, loading the next file and calling \<^verbatim>\<open>play\<close> starts
  no crossfade: \<^verbatim>\<open>play\<close> is the backend's \<^verbatim>\<open>play()\<close> on the one player and its answer,
  and after the load as well as after the play the timer, the fade-out field, the set of
  handles held and every volume are what they were. An engine that held one handle before
  holds that one handle throughout.
\<close>

theorem instant_cut:
  "crossfade_duration e = 0 \<Longrightarrow>
   (let e1 = snd (load_file b path e); e2 = snd (play b e1)
    in crossfade_timer e1 = crossfade_timer e \<and> crossfade_timer e2 = crossfade_timer e \<and>
       fade_out_player e1 = fade_out_player e \<and> fade_out_player e2 = fade_out_player e \<and>
       live_handles e1 = live_handles e \<and> live_handles e2 = live_handles e \<and>
       (\<forall>h. volume (players e2 h) = volume (players e h)) \<and>
       play b e1 = (play_rc b (players e1 (player e1)) = 0, snd (vlc_play b (player e1) e1)) \<and>
       (fade_out_player e = None \<longrightarrow>
          live_handles e1 = {player e} \<and> live_handles e2 = {player e}))"
  by (simp add: play_def load_file_def vlc_play_def live_handles_def Let_def
      split: sum.split option.split)

theorem instant_cut_witness:
  "crossfade_duration demo_cut_engine = 0 \<and> fade_out_player demo_cut_engine = None \<and>
   (let e1 = snd (load_file demo_backend ''b.mp3'' demo_cut_engine);
        e2 = snd (play demo_backend e1)
    in live_handles e1 = {0} \<and> live_handles e2 = {0} \<and>
       \<not> active (crossfade_timer e2) \<and> fade_out_player e2 = None \<and>
       fst (play demo_backend e1) \<and>
       media (players e2 0) = Some (Media ''b.mp3'') \<and> volume (players e2 0) = 70)"
  using instant_cut [of demo_cut_engine demo_backend "''b.mp3''"]
  by (simp add: demo_cut_engine_def play_def load_file_def vlc_play_def live_handles_def
      new_engine_def new_player_def demo_backend_def Let_def)

section \<open>Loading\<close>

text \<open>
  C7, as the code has it. \<^verbatim>\<open>load_file\<close> always returns. Its result is \<^verbatim>\<open>False\<close>
  exactly when the backend raises while creating or parsing the media, and then the
  engine, its current media included, is what it was. When the backend raises nothing the
  result is \<^verbatim>\<open>True\<close> and the new media is bound to the player and becomes the current
  media, whatever the path is: neither the file nor its suffix is looked at.
\<close>

theorem failed_load_changes_nothing:
  "fst (load_file b path e) =
     (case media_new b path of Inl x \<Rightarrow> False | Inr m' \<Rightarrow> parse_with_options b m' = None) \<and>
   (media_new b path = Inl ex \<longrightarrow> load_file b path e = (False, e)) \<and>
   (media_new b path = Inr m \<and> parse_with_options b m = Some ex \<longrightarrow>
      load_file b path e = (False, e)) \<and>
   (media_new b path = Inr m \<and> parse_with_options b m = None \<longrightarrow>
      load_file b path e =
        (True, e\<lparr>players := (players e)(player e := (players e (player e))\<lparr>media := Some m\<rparr>),
                 current_media := Some m\<rparr>)) \<and>
   (\<not> fst (load_file b path e) \<longrightarrow> snd (load_file b path e) = e)"
  by (simp add: load_file_def split: sum.split option.split)

theorem failed_load_changes_nothing_witness:
  "media_new demo_backend ''notes.txt'' = Inl (BackendError ''notes.txt'') \<and>
   load_file demo_backend ''notes.txt'' demo_cut_engine = (False, demo_cut_engine) \<and>
   media_new (demo_backend\<lparr>parse_with_options := (\<lambda>m. Some (BackendError ''corrupt''))\<rparr>) ''a.mp3''
     = Inr (Media ''a.mp3'') \<and>
   parse_with_options (demo_backend\<lparr>parse_with_options := (\<lambda>m. Some (BackendError ''corrupt''))\<rparr>)
     (Media ''a.mp3'') = Some (BackendError ''corrupt'') \<and>
   load_file (demo_backend\<lparr>parse_with_options := (\<lambda>m. Some (BackendError ''corrupt''))\<rparr>)
     ''a.mp3'' demo_cut_engine = (False, demo_cut_engine) \<and>
   media_new demo_backend ''b.mp3'' = Inr (Media ''b.mp3'') \<and>
   parse_with_options demo_backend (Media ''b.mp3'') = None \<and>
   fst (load_file demo_backend ''b.mp3'' demo_cut_engine) \<and>
   current_media (snd (load_file demo_backend ''b.mp3'' demo_cut_engine)) =
     Some (Media ''b.mp3'') \<and>
   \<not> fst (load_file demo_backend ''notes.txt'' demo_cut_engine) \<and>
   current_media (snd (load_file demo_backend ''notes.txt'' demo_cut_engine)) =
     Some (Media ''a.mp3'')"
proof -
  have a: "media_new demo_backend ''notes.txt'' = Inl (BackendError ''notes.txt'')"
    by (simp add: demo_backend_def)
  have b: "media_new (demo_backend\<lparr>parse_with_options := (\<lambda>m. Some (BackendError ''corrupt''))\<rparr>)
      ''a.mp3'' = Inr (Media ''a.mp3'') \<and>
    parse_with_options (demo_backend\<lparr>parse_with_options := (\<lambda>m. Some (BackendError ''corrupt''))\<rparr>)
      (Media ''a.mp3'') = Some (BackendError ''corrupt'')"
    by (simp add: demo_backend_def)
  have c: "current_media demo_cut_engine = Some (Media ''a.mp3'')"
    by (simp add: demo_cut_engine_def play_def load_file_def vlc_play_def new_engine_def
        new_player_def demo_backend_def Let_def)
  have d: "media_new demo_backend ''b.mp3'' = Inr (Media ''b.mp3'') \<and>
    parse_with_options demo_backend (Media ''b.mp3'') = None"
    by (simp add: demo_backend_def)
  show ?thesis
    using a b c d
      failed_load_changes_nothing [of demo_backend "''notes.txt''" demo_cut_engine
        "BackendError ''notes.txt''"]
      failed_load_changes_nothing
        [of "demo_backend\<lparr>parse_with_options := (\<lambda>m. Some (BackendError ''corrupt''))\<rparr>"
          "''a.mp3''" demo_cut_engine "BackendError ''corrupt''" "Media ''a.mp3''"]
      failed_load_changes_nothing [of demo_backend "''b.mp3''" demo_cut_engine _ "Media ''b.mp3''"]
    by simp
qed

text \<open>
  C7 as the spec states it fails: \<^verbatim>\<open>notes.txt\<close> is not in a format of the table, the backend
  builds a descriptor for it without raising, and \<^verbatim>\<open>load_file\<close> answers \<^verbatim>\<open>True\<close> and
  replaces the current media \<^verbatim>\<open>a.mp3\<close> by it.
\<close>

theorem unrecognized_format_is_loaded:
  "\<not> supported_format ''notes.txt'' \<and>
   current_media demo_cut_engine = Some (Media ''a.mp3'') \<and>
   fst (load_file lax_backend ''notes.txt'' demo_cut_engine) \<and>
   current_media (snd (load_file lax_backend ''notes.txt'' demo_cut_engine)) =
     Some (Media ''notes.txt'') \<and>
   media (players (snd (load_file lax_backend ''notes.txt'' demo_cut_engine)) 0) =
     Some (Media ''notes.txt'')"
  by (simp add: supported_format_def SUPPORTED_FORMATS_def endswith_def lax_backend_def
      demo_cut_engine_def play_def load_file_def vlc_play_def new_engine_def new_player_def
      demo_backend_def Let_def)

section \<open>Volume and mute\<close>

text \<open>
  C8. For every level, also below 0 and above 100, the volume observed after
  \<^verbatim>\<open>set_volume\<close> is the level clamped to [0,100]; the setter is total, so nothing is
  raised. The levels the two volume hotkeys pass are clamped the same way.
\<close>

theorem set_volume_clamps:
  "get_volume (audio_engine (set_volume v mp)) = max 0 (min 100 v) \<and>
   0 \<le> get_volume (audio_engine (set_volume v mp)) \<and>
   get_volume (audio_engine (set_volume v mp)) \<le> 100 \<and>
   get_volume (audio_engine (volume_up mp)) = max 0 (min 100 (get_volume (audio_engine mp) + 5)) \<and>
   get_volume (audio_engine (volume_down mp)) = max 0 (min 100 (get_volume (audio_engine mp) - 5))"
  by (simp add: volume_up_def volume_down_def set_volume_def engine_set_volume_def
      audio_set_volume_def get_volume_def Let_def split: option.split)

text \<open>
  C4. After \<^verbatim>\<open>set_volume v\<close> with a positive \<open>v\<close>, \<^verbatim>\<open>toggle_mute\<close> brings the observed
  volume to 0 and a second \<^verbatim>\<open>toggle_mute\<close> brings back the volume observed before the
  mute, which is \<open>v\<close> itself for every \<open>v\<close> up to 100.
\<close>

theorem mute_unmute_roundtrip:
  "0 < v \<Longrightarrow>
   get_volume (audio_engine (toggle_mute (set_volume v mp))) = 0 \<and>
   get_volume (audio_engine (toggle_mute (toggle_mute (set_volume v mp)))) =
     get_volume (audio_engine (set_volume v mp)) \<and>
   (v \<le> 100 \<longrightarrow> get_volume (audio_engine (toggle_mute (toggle_mute (set_volume v mp)))) = v)"
  by (simp add: toggle_mute_def set_volume_def engine_set_volume_def audio_set_volume_def
      get_volume_def Let_def split: option.split)

theorem mute_unmute_roundtrip_witness:
  "(0::int) < 60 \<and> (60::int) \<le> 100 \<and>
   get_volume (audio_engine (toggle_mute (set_volume 60 demo_player))) = 0 \<and>
   get_volume (audio_engine (toggle_mute (toggle_mute (set_volume 60 demo_player)))) = 60"
  using mute_unmute_roundtrip [of 60 demo_player] by simp

text \<open>
  C5. \<^verbatim>\<open>toggle_mute\<close> at volume 0 (or below), with no \<^verbatim>\<open>last_volume\<close> recorded yet, sets
  the volume to 70.
\<close>

theorem unmute_fallback_70:
  "get_volume (audio_engine mp) \<le> 0 \<Longrightarrow> last_volume mp = None \<Longrightarrow>
   get_volume (audio_engine (toggle_mute mp)) = 70"
  by (simp add: toggle_mute_def set_volume_def engine_set_volume_def audio_set_volume_def
      get_volume_def Let_def split: option.split)

theorem unmute_fallback_70_witness:
  "get_volume (audio_engine demo_silent) = 0 \<and> last_volume demo_silent = None \<and>
   get_volume (audio_engine (toggle_mute demo_silent)) = 70"
proof -
  have v: "get_volume (audio_engine demo_silent) = 0"
    by (simp add: demo_silent_def set_volume_def engine_set_volume_def audio_set_volume_def
        get_volume_def Let_def split: option.split)
  have l: "last_volume demo_silent = None"
    by (simp add: demo_silent_def set_volume_def demo_player_def)
  show ?thesis
    using v l unmute_fallback_70 [of demo_silent] by simp
qed

section \<open>Equalizer presets\<close>

lemma lower_flat: "lower ''flat'' = ''flat''"
  by (simp add: lower_def lower_char_def)

lemma resolve_miss:
  assumes miss: "lower name \<notin> set (map (\<lambda>kg. lower (fst kg)) store)"
  shows "resolve_preset b store name = flat b"
proof -
  have "find (\<lambda>kg. lower (fst kg) = lower name) store = None"
    using miss by (force simp: find_None_iff)
  then show ?thesis
    by (simp add: resolve_preset_def lower_flat)
qed

lemma resolve_flat: "resolve_preset b store ''flat'' = flat b"
  by (simp add: resolve_preset_def lower_flat)

lemma resolve_lower:
  "lower n1 = lower n2 \<Longrightarrow> resolve_preset b store n1 = resolve_preset b store n2"
  by (simp add: resolve_preset_def)

text \<open>
  C9. \<^verbatim>\<open>set_eq_preset\<close> does the same for two names that differ only in case, and for a
  name that matches no stored preset it does what it does for "flat": the equalizer and the
  live player get the all-zero gains.
\<close>

theorem unknown_preset_is_flat:
  "(lower n1 = lower n2 \<longrightarrow> set_eq_preset b store n1 e = set_eq_preset b store n2 e) \<and>
   (lower name \<notin> set (map (\<lambda>kg. lower (fst kg)) store) \<longrightarrow>
      set_eq_preset b store name e = set_eq_preset b store ''flat'' e \<and>
      equalizer (set_eq_preset b store name e) = replicate (band_count b) 0 \<and>
      eq_gains (players (set_eq_preset b store name e) (player e)) = replicate (band_count b) 0)"
  using resolve_miss [of name store b] resolve_flat [of b store] resolve_lower [of n1 n2 b store]
  by (auto simp add: set_eq_preset_def Let_def flat_def push_gains_def split: option.split)

theorem unknown_preset_is_flat_witness:
  "lower ''ROCK'' = lower ''rock'' \<and>
   set_eq_preset demo_backend demo_store ''ROCK'' demo_engine =
     set_eq_preset demo_backend demo_store ''rock'' demo_engine \<and>
   lower ''nonexistent'' \<notin> set (map (\<lambda>kg. lower (fst kg)) demo_store) \<and>
   set_eq_preset demo_backend demo_store ''nonexistent'' demo_engine =
     set_eq_preset demo_backend demo_store ''flat'' demo_engine \<and>
   equalizer (set_eq_preset demo_backend demo_store ''nonexistent'' demo_engine) =
     [0, 0, 0, 0, 0, 0, 0, 0, 0, 0] \<and>
   equalizer (set_eq_preset demo_backend demo_store ''ROCK'' demo_engine) =
     [4, 3, 0, -2, -3, 0, 2, 3, 4, 4]"
proof -
  have a: "lower ''ROCK'' = lower ''rock''"
    by (simp add: lower_def lower_char_def)
  have b: "lower ''nonexistent'' \<notin> set (map (\<lambda>kg. lower (fst kg)) demo_store)"
    by (simp add: demo_store_def lower_def lower_char_def)
  have c: "equalizer (set_eq_preset demo_backend demo_store ''ROCK'' demo_engine) =
     [4, 3, 0, -2, -3, 0, 2, 3, 4, 4]"
    by (simp add: set_eq_preset_def resolve_preset_def demo_store_def lower_def lower_char_def
        Let_def)
  have d: "replicate (band_count demo_backend) (0::real) = [0, 0, 0, 0, 0, 0, 0, 0, 0, 0]"
    by (simp add: demo_backend_def numeral_eq_Suc)
  show ?thesis
    using a b c d
      unknown_preset_is_flat [of "''ROCK''" "''rock''" demo_backend demo_store demo_engine
        "''nonexistent''"]
    by metis
qed

end
